theory Spec2Isabelle
  imports Complex_Main
begin

section \<open>Errors and tensor entries\<close>

text \<open>
  The exceptions the code raises: \<open>ValueError\<close> and \<open>NotImplementedError\<close> by the two
  constructors, \<open>RuntimeError\<close> by the tensor library (a \<open>view\<close> whose shape does not hold
  the elements, operands that do not broadcast, a kernel longer than its input).

  Tensor entries are modelled in exact real arithmetic: rounding and overflow of the
  32-bit floats are left out. With a sample rate other than zero, the one place where
  \<open>filters\<close> can leave the finite numbers is the final normalisation
  \<open>band_pass / (2*band)\<close>, whose divisor can be zero: \<open>tdiv\<close> is the division of the
  tensor library there (no exception; \<open>0/0\<close> is NaN, \<open>x/0\<close> an infinity of the sign
  of \<open>x\<close>).
\<close>

datatype error = ValueError | NotImplementedError | RuntimeError

datatype tval = Fin real | PosInf | NegInf | NaN

definition tdiv :: "real \<Rightarrow> real \<Rightarrow> tval" where
  "tdiv x y =
     (if y = 0 then (if x = 0 then NaN else if 0 < x then PosInf else NegInf)
      else Fin (x / y))"


section \<open>Library functions used by the constructor\<close>

text \<open>
  \<open>np.linspace(start, stop, num)\<close>, \<open>np.diff\<close>, \<open>np.hamming(M)\<close> and
  \<open>torch.arange(-K, 0.0)\<close>, by their documented formulas. \<open>linspace\<close> with \<open>num = 1\<close>
  is \<open>[start]\<close>: the only index is 0, so the step is never used.
\<close>

definition linspace :: "real \<Rightarrow> real \<Rightarrow> nat \<Rightarrow> real list" where
  "linspace start stop num =
     map (\<lambda>i. start + real i * ((stop - start) / real (num - 1))) [0..<num]"

definition diff :: "real list \<Rightarrow> real list" where
  "diff xs = map (\<lambda>(a, b). b - a) (zip xs (tl xs))"

definition hamming :: "nat \<Rightarrow> real list" where
  "hamming M =
     (if M = 1 then [1]
      else map (\<lambda>k. 0.54 - 0.46 * cos (2 * pi * real k / real (M - 1))) [0..<M])"

definition arange_neg :: "nat \<Rightarrow> real list" where
  "arange_neg K = map (\<lambda>j. real j - real K) [0..<K]"

definition hz_to_mel :: "real \<Rightarrow> real" where
  "hz_to_mel f = 2595 * log 10 (1 + f / 700)"

definition mel_to_hz :: "real \<Rightarrow> real" where
  "mel_to_hz m = 700 * (10 powr (m / 2595) - 1)"

section \<open>SincNetFilterConvLayer\<close>

text \<open>
  The layer object: the attributes \<open>self._x\<close> of the class are the fields \<open>self_x\<close>.
  The two parameters are column tensors of shape \<open>(m, 1)\<close>, held as lists; the buffer
  \<open>_n\<close> is a row tensor of shape \<open>(1, K)\<close> and \<open>_window\<close> has shape \<open>(K)\<close>.
  Counts and lengths are natural numbers. \<open>filters_cache\<close> is the entry that
  \<open>lru_cache(maxsize=1)\<close> holds for this object, \<open>None\<close> when it holds none.
  A three-dimensional tensor is its shape and its entries in row-major order;
  \<open>at3 T i j k\<close> is the entry \<open>T[i][j][k]\<close>.
\<close>

type_synonym shape = "nat \<times> nat \<times> nat"

record tensor3 =
  shape :: shape
  entries :: "tval list"

record layer =
  self_out_channels :: nat
  self_kernel_size :: nat
  self_stride :: nat
  self_padding :: nat
  self_dilation :: nat
  self_sample_rate :: real
  self_min_low_hz :: real
  self_min_band_hz :: real
  self_low_hz :: "real list"
  self_band_hz :: "real list"
  self_window :: "real list"
  self_n :: "real list"
  filters_cache :: "tensor3 option"


text \<open>
  The body of \<open>__init__\<close> after the check of \<open>in_channels\<close>. An even \<open>kernel_size\<close>
  is raised by one. The Mel-spaced boundaries \<open>hz\<close> have \<open>out_channels // 2 + 1\<close> entries;
  \<open>_low_hz\<close> is \<open>hz[:-1]\<close> and \<open>_band_hz\<close> is \<open>np.diff(hz)\<close>.
  Where \<open>np.log10\<close> gets a non-positive number it returns nan or \<open>-inf\<close> with a
  warning and raises nothing; \<open>log\<close> is some real number there. Only the number of the
  initial parameters is used below, never their values.
\<close>

definition odd_kernel_size :: "nat \<Rightarrow> nat" where
  "odd_kernel_size kernel_size = (if kernel_size mod 2 = 0 then kernel_size + 1 else kernel_size)"

definition init_hz :: "nat \<Rightarrow> real \<Rightarrow> real \<Rightarrow> real \<Rightarrow> real list" where
  "init_hz out_channels sample_rate min_low_hz min_band_hz =
     (let low_hz = 30;
          high_hz = sample_rate / 2 - (min_low_hz + min_band_hz);
          mel = linspace (hz_to_mel low_hz) (hz_to_mel high_hz) (out_channels div 2 + 1)
      in map mel_to_hz mel)"

definition new_layer ::
  "nat \<Rightarrow> nat \<Rightarrow> real \<Rightarrow> nat \<Rightarrow> nat \<Rightarrow> nat \<Rightarrow> real \<Rightarrow> real \<Rightarrow> layer" where
  "new_layer out_channels kernel_size sample_rate stride padding dilation min_low_hz min_band_hz =
     (let ks = odd_kernel_size kernel_size;
          hz = init_hz out_channels sample_rate min_low_hz min_band_hz
      in \<lparr> self_out_channels = out_channels,
           self_kernel_size = ks,
           self_stride = stride,
           self_padding = padding,
           self_dilation = dilation,
           self_sample_rate = sample_rate,
           self_min_low_hz = min_low_hz,
           self_min_band_hz = min_band_hz,
           self_low_hz = butlast hz,
           self_band_hz = diff hz,
           self_window = take (ks div 2) (hamming ks),
           self_n = map (\<lambda>a. 2 * pi * a / sample_rate) (arange_neg (ks div 2)),
           filters_cache = None \<rparr>)"

definition SincNetFilterConvLayer_init ::
  "nat \<Rightarrow> nat \<Rightarrow> real \<Rightarrow> nat \<Rightarrow> nat \<Rightarrow> nat \<Rightarrow> real \<Rightarrow> real \<Rightarrow> nat \<Rightarrow> error + layer" where
  "SincNetFilterConvLayer_init out_channels kernel_size sample_rate stride padding dilation
       min_low_hz min_band_hz in_channels =
     (if in_channels \<noteq> 1 then Inl ValueError
      else Inr (new_layer out_channels kernel_size sample_rate stride padding dilation
                  min_low_hz min_band_hz))"

subsection \<open>The property \<open>filters\<close>\<close>

text \<open>
  \<open>torch.clamp(x, lo, hi)\<close> is \<open>min(max(x, lo), hi)\<close>; with \<open>lo > hi\<close> every entry
  becomes \<open>hi\<close>, which this formula gives too.
\<close>

definition clamp :: "real \<Rightarrow> real \<Rightarrow> real \<Rightarrow> real" where
  "clamp x lo hi = min (max x lo) hi"

text \<open>
  The lines of \<open>filters\<close>, for the row of one filter with raw parameters \<open>lp\<close>
  (an entry of \<open>_low_hz\<close>) and \<open>bp\<close> (an entry of \<open>_band_hz\<close>).
\<close>

definition low :: "layer \<Rightarrow> real \<Rightarrow> real" where
  "low s lp = self_min_low_hz s + \<bar>lp\<bar>"

definition pre_clamp_high :: "layer \<Rightarrow> real \<Rightarrow> real \<Rightarrow> real" where
  "pre_clamp_high s lp bp = low s lp + self_min_band_hz s + \<bar>bp\<bar>"

definition high :: "layer \<Rightarrow> real \<Rightarrow> real \<Rightarrow> real" where
  "high s lp bp = clamp (pre_clamp_high s lp bp) (self_min_low_hz s) (self_sample_rate s / 2)"

definition band :: "layer \<Rightarrow> real \<Rightarrow> real \<Rightarrow> real" where
  "band s lp bp = high s lp bp - low s lp"

definition band_pass_left :: "layer \<Rightarrow> real \<Rightarrow> real \<Rightarrow> real list" where
  "band_pass_left s lp bp =
     map (\<lambda>(t, w). ((sin (high s lp bp * t) - sin (low s lp * t)) / (t / 2)) * w)
       (zip (self_n s) (self_window s))"

definition band_pass_center :: "layer \<Rightarrow> real \<Rightarrow> real \<Rightarrow> real" where
  "band_pass_center s lp bp = 2 * band s lp bp"

definition band_pass_right :: "layer \<Rightarrow> real \<Rightarrow> real \<Rightarrow> real list" where
  "band_pass_right s lp bp = rev (band_pass_left s lp bp)"

definition band_pass_row :: "layer \<Rightarrow> real \<Rightarrow> real \<Rightarrow> tval list" where
  "band_pass_row s lp bp =
     map (\<lambda>v. tdiv v (2 * band s lp bp))
       (band_pass_left s lp bp @ [band_pass_center s lp bp] @ band_pass_right s lp bp)"

text \<open>
  The element-wise operations of \<open>filters\<close> broadcast the two column tensors against
  each other: equal lengths pair up, a column of length 1 is repeated, any other pair of
  lengths raises.
\<close>

definition broadcast_cols :: "(real \<Rightarrow> real \<Rightarrow> 'a) \<Rightarrow> real list \<Rightarrow> real list \<Rightarrow> error + 'a list" where
  "broadcast_cols f xs ys =
     (if length xs = length ys then Inr (map (\<lambda>(x, y). f x y) (zip xs ys))
      else if length xs = 1 then Inr (map (\<lambda>y. f (hd xs) y) ys)
      else if length ys = 1 then Inr (map (\<lambda>x. f x (hd ys)) xs)
      else Inl RuntimeError)"

definition band_pass :: "layer \<Rightarrow> error + tval list list" where
  "band_pass s = broadcast_cols (band_pass_row s) (self_low_hz s) (self_band_hz s)"

text \<open>
  \<open>t.view(d0, 1, d2)\<close> of a contiguous tensor, given by its entries in row-major order:
  it raises unless the shape holds exactly the entries.
\<close>

definition view3 :: "tval list \<Rightarrow> nat \<Rightarrow> nat \<Rightarrow> error + tensor3" where
  "view3 flat d0 d2 =
     (if length flat \<noteq> d0 * 1 * d2 then Inl RuntimeError
      else Inr \<lparr> shape = (d0, 1, d2), entries = flat \<rparr>)"

definition filters_body :: "layer \<Rightarrow> error + tensor3" where
  "filters_body s =
     (case band_pass s of
        Inl e \<Rightarrow> Inl e
      | Inr rows \<Rightarrow> view3 (concat rows) (self_out_channels s) (self_kernel_size s))"

text \<open>
  The property is wrapped in \<open>lru_cache(maxsize=1)\<close>, keyed by the object: an access
  returns the cached kernel bank when there is one and otherwise runs the body, caching
  its result unless the body raised.
\<close>

definition filters :: "layer \<Rightarrow> (error + tensor3) \<times> layer" where
  "filters s =
     (case filters_cache s of
        Some k \<Rightarrow> (Inr k, s)
      | None \<Rightarrow>
          (case filters_body s of
             Inl e \<Rightarrow> (Inl e, s)
           | Inr k \<Rightarrow> (Inr k, s\<lparr>filters_cache := Some k\<rparr>)))"

text \<open>
  An assignment to the two parameters (by a training step, by loading weights or by the
  caller). It does not touch the cache of \<open>filters\<close>: nothing in the class does.
\<close>

definition set_params :: "real list \<Rightarrow> real list \<Rightarrow> layer \<Rightarrow> layer" where
  "set_params lps bps s = s\<lparr>self_low_hz := lps, self_band_hz := bps\<rparr>"

subsection \<open>Shapes through the tensor library\<close>





section \<open>SincNet\<close>

text \<open>
  The entries of \<open>self.conv1d\<close>: the analytic layer, or \<open>nn.Conv1d(in, out, kernel)\<close>
  with stride 1, no padding and dilation 1.
\<close>

datatype module = SincConv layer | Conv1d nat nat nat

record sincnet =
  wav_norm1d :: nat
  conv1d :: "module list"
  pool1d :: "(nat \<times> nat) list"
  norm1d :: "nat list"

text \<open>The parameters of \<open>SincNet.__init__\<close> and their defaults.\<close>

record args =
  num_sinc_filters :: nat
  sinc_filter_length :: nat
  num_conv_filters :: nat
  conv_filter_length :: nat
  pool_kernel_size :: nat
  pool_stride :: nat
  sample_rate :: real
  sinc_filter_stride :: nat
  sinc_filter_padding :: nat
  sinc_filter_dilation :: nat
  min_low_hz :: real
  min_band_hz :: real
  sinc_filter_in_channels :: nat
  num_wavform_channels :: nat

definition default_args :: args where
  "default_args =
     \<lparr> num_sinc_filters = 80, sinc_filter_length = 251, num_conv_filters = 60,
       conv_filter_length = 5, pool_kernel_size = 3, pool_stride = 3, sample_rate = 16000,
       sinc_filter_stride = 10, sinc_filter_padding = 0, sinc_filter_dilation = 1,
       min_low_hz = 50, min_band_hz = 50, sinc_filter_in_channels = 1,
       num_wavform_channels = 1 \<rparr>"

definition SincNet_init :: "args \<Rightarrow> error + sincnet" where
  "SincNet_init a =
     (if sample_rate a \<noteq> 16000 then Inl NotImplementedError
      else
        case SincNetFilterConvLayer_init (num_sinc_filters a) (sinc_filter_length a)
               (sample_rate a) (sinc_filter_stride a) (sinc_filter_padding a)
               (sinc_filter_dilation a) (min_low_hz a) (min_band_hz a)
               (sinc_filter_in_channels a) of
          Inl e \<Rightarrow> Inl e
        | Inr l \<Rightarrow>
            Inr \<lparr> wav_norm1d = num_wavform_channels a,
                  conv1d = [SincConv l,
                            Conv1d (num_sinc_filters a) (num_conv_filters a) (conv_filter_length a),
                            Conv1d (num_conv_filters a) (num_conv_filters a) (conv_filter_length a)],
                  pool1d = [(pool_kernel_size a, pool_stride a),
                            (pool_kernel_size a, pool_stride a),
                            (pool_kernel_size a, pool_stride a)],
                  norm1d = [num_sinc_filters a, num_conv_filters a, num_conv_filters a] \<rparr>)"








section \<open>The specification's formulas\<close>


definition spec_time_axis :: "nat \<Rightarrow> real \<Rightarrow> real list" where
  "spec_time_axis ks sr = map (\<lambda>j. (real j - real (ks div 2)) / sr) [0..<ks div 2]"

definition spec_window :: "nat \<Rightarrow> real list" where
  "spec_window ks = take (ks div 2) (hamming ks)"

definition spec_band_pass_left :: "real \<Rightarrow> real \<Rightarrow> real \<Rightarrow> real \<Rightarrow> real" where
  "spec_band_pass_left hi lo t w = (sin (2 * pi * hi * t) - sin (2 * pi * lo * t)) / (pi * t) * w"

section \<open>Shapes of the layer's tensors\<close>

lemma odd_kernel_size_odd: "odd_kernel_size k mod 2 = 1"
  by (simp add: odd_kernel_size_def) presburger

lemma odd_kernel_size_halves: "2 * (odd_kernel_size k div 2) + 1 = odd_kernel_size k"
  using odd_kernel_size_odd [of k] by presburger

lemma odd_kernel_size_pos: "0 < odd_kernel_size k"
  by (cases "k = 0") (simp_all add: odd_kernel_size_def)

lemma length_hamming: "length (hamming M) = M"
  by (simp add: hamming_def)

lemma length_init_hz: "length (init_hz oc sr ml mb) = oc div 2 + 1"
  by (simp add: init_hz_def linspace_def Let_def)

lemma length_diff: "length (diff xs) = length xs - 1"
  by (simp add: diff_def)

lemma new_layer_fields:
  "self_out_channels (new_layer oc ks sr st pd dl ml mb) = oc"
  "self_kernel_size (new_layer oc ks sr st pd dl ml mb) = odd_kernel_size ks"
  "self_stride (new_layer oc ks sr st pd dl ml mb) = st"
  "self_padding (new_layer oc ks sr st pd dl ml mb) = pd"
  "self_dilation (new_layer oc ks sr st pd dl ml mb) = dl"
  "self_sample_rate (new_layer oc ks sr st pd dl ml mb) = sr"
  "self_min_low_hz (new_layer oc ks sr st pd dl ml mb) = ml"
  "self_min_band_hz (new_layer oc ks sr st pd dl ml mb) = mb"
  "filters_cache (new_layer oc ks sr st pd dl ml mb) = None"
  by (simp_all add: new_layer_def Let_def)

lemma new_layer_param_lengths:
  "length (self_low_hz (new_layer oc ks sr st pd dl ml mb)) = oc div 2"
  "length (self_band_hz (new_layer oc ks sr st pd dl ml mb)) = oc div 2"
  by (simp_all add: new_layer_def Let_def length_init_hz length_diff)

lemma new_layer_buffer_lengths:
  "length (self_n (new_layer oc ks sr st pd dl ml mb)) = odd_kernel_size ks div 2"
  "length (self_window (new_layer oc ks sr st pd dl ml mb)) = odd_kernel_size ks div 2"
  by (simp_all add: new_layer_def Let_def arange_neg_def length_hamming)

lemma set_params_fields:
  "self_out_channels (set_params lps bps s) = self_out_channels s"
  "self_kernel_size (set_params lps bps s) = self_kernel_size s"
  "self_stride (set_params lps bps s) = self_stride s"
  "self_padding (set_params lps bps s) = self_padding s"
  "self_dilation (set_params lps bps s) = self_dilation s"
  "self_sample_rate (set_params lps bps s) = self_sample_rate s"
  "self_min_low_hz (set_params lps bps s) = self_min_low_hz s"
  "self_min_band_hz (set_params lps bps s) = self_min_band_hz s"
  "self_low_hz (set_params lps bps s) = lps"
  "self_band_hz (set_params lps bps s) = bps"
  "self_window (set_params lps bps s) = self_window s"
  "self_n (set_params lps bps s) = self_n s"
  "filters_cache (set_params lps bps s) = filters_cache s"
  by (simp_all add: set_params_def)

lemma band_pass_row_set_params:
  "band_pass_row (set_params lps bps s) = band_pass_row s"
  by (simp add: fun_eq_iff set_params_def band_pass_row_def band_pass_left_def
      band_pass_right_def band_pass_center_def band_def high_def pre_clamp_high_def low_def)

lemma length_band_pass_left:
  "length (band_pass_left s lp bp) = min (length (self_n s)) (length (self_window s))"
  by (simp add: band_pass_left_def)

lemma length_band_pass_row:
  "length (band_pass_row s lp bp) = 2 * min (length (self_n s)) (length (self_window s)) + 1"
  by (simp add: band_pass_row_def band_pass_right_def length_band_pass_left)

lemma length_row_new_layer:
  "length (band_pass_row (new_layer oc ks sr st pd dl ml mb) x y) = odd_kernel_size ks"
  using odd_kernel_size_halves [of ks]
  by (simp add: length_band_pass_row new_layer_buffer_lengths)

lemma broadcast_cols_same:
  "length xs = length ys \<Longrightarrow> broadcast_cols f xs ys = Inr (map (\<lambda>(x, y). f x y) (zip xs ys))"
  by (simp add: broadcast_cols_def)

lemma length_concat_const:
  "(\<And>r. r \<in> set rows \<Longrightarrow> length r = c) \<Longrightarrow> length (concat rows) = length rows * c"
  by (induction rows) simp_all


lemma band_pass_set_params:
  assumes "length lps = length bps"
  shows "band_pass (set_params lps bps s) =
           Inr (map (\<lambda>(x, y). band_pass_row s x y) (zip lps bps))"
  using assms
  by (simp add: band_pass_def broadcast_cols_same set_params_fields band_pass_row_set_params)

lemma band_pass_new_layer:
  "band_pass (new_layer oc ks sr st pd dl ml mb) =
     Inr (map (\<lambda>(x, y). band_pass_row (new_layer oc ks sr st pd dl ml mb) x y)
            (zip (self_low_hz (new_layer oc ks sr st pd dl ml mb))
                 (self_band_hz (new_layer oc ks sr st pd dl ml mb))))"
  by (simp add: band_pass_def broadcast_cols_same new_layer_param_lengths)

lemma filters_body_set_params:
  assumes "length lps = oc" and "length bps = oc"
  shows "filters_body (set_params lps bps (new_layer oc ks sr st pd dl ml mb)) =
           Inr \<lparr> shape = (oc, 1, odd_kernel_size ks),
                 entries = concat (map (\<lambda>(x, y). band_pass_row (new_layer oc ks sr st pd dl ml mb) x y)
                                     (zip lps bps)) \<rparr>"
proof -
  let ?L = "new_layer oc ks sr st pd dl ml mb"
  let ?rows = "map (\<lambda>(x, y). band_pass_row ?L x y) (zip lps bps)"
  have bp: "band_pass (set_params lps bps ?L) = Inr ?rows"
    using assms by (simp add: band_pass_set_params)
  have rows: "\<And>r. r \<in> set ?rows \<Longrightarrow> length r = odd_kernel_size ks"
    by (auto simp: length_row_new_layer)
  have "length (concat ?rows) = length ?rows * odd_kernel_size ks"
    using rows by (rule length_concat_const)
  then have "length (concat ?rows) = oc * 1 * odd_kernel_size ks"
    using assms by simp
  then show ?thesis
    by (simp add: filters_body_def bp view3_def set_params_fields new_layer_fields)
qed

lemma band_pass_new_layer_shape:
  "\<exists>rows. band_pass (new_layer oc ks sr st pd dl ml mb) = Inr rows
      \<and> length rows = oc div 2
      \<and> length (concat rows) = (oc div 2) * odd_kernel_size ks"
proof -
  let ?L = "new_layer oc ks sr st pd dl ml mb"
  let ?rows = "map (\<lambda>(x, y). band_pass_row ?L x y) (zip (self_low_hz ?L) (self_band_hz ?L))"
  have bp: "band_pass ?L = Inr ?rows" by (rule band_pass_new_layer)
  have rows: "\<And>r. r \<in> set ?rows \<Longrightarrow> length r = odd_kernel_size ks"
    by (auto simp: length_row_new_layer)
  have n: "length ?rows = oc div 2" by (simp add: new_layer_param_lengths)
  have "length (concat ?rows) = (oc div 2) * odd_kernel_size ks"
    using length_concat_const [of ?rows "odd_kernel_size ks"] rows n by simp
  then show ?thesis using bp n by blast
qed

lemma filters_body_new_layer_raises:
  assumes "1 \<le> oc"
  shows "filters_body (new_layer oc ks sr st pd dl ml mb) = Inl RuntimeError"
proof -
  obtain rows where bp: "band_pass (new_layer oc ks sr st pd dl ml mb) = Inr rows"
    and len: "length (concat rows) = (oc div 2) * odd_kernel_size ks"
    using band_pass_new_layer_shape by blast
  have "oc div 2 \<noteq> oc" using assms by simp
  then have "length (concat rows) \<noteq> oc * 1 * odd_kernel_size ks"
    using len odd_kernel_size_pos [of ks] by simp
  then show ?thesis
    by (simp add: filters_body_def bp view3_def new_layer_fields)
qed

lemma filters_new_layer_raises:
  assumes "1 \<le> oc"
  shows "filters (new_layer oc ks sr st pd dl ml mb)
           = (Inl RuntimeError, new_layer oc ks sr st pd dl ml mb)"
  using filters_body_new_layer_raises [OF assms]
  by (simp add: filters_def new_layer_fields)

text \<open>
  C1. The claim: for \<open>out_channels \<ge> 1\<close> and any \<open>kernel_size\<close>, \<open>filters\<close> returns a
  kernel bank of shape \<open>(out_channels, 1, kernel_size)\<close>, the kernel size raised to the
  next odd number. On the code the property raises instead, for every such configuration:
  the constructor makes parameters of \<open>out_channels // 2\<close> rows, so \<open>band_pass\<close> has
  \<open>out_channels // 2\<close> rows of \<open>kernel_size\<close> entries, and the final \<open>view\<close> to
  \<open>(out_channels, 1, kernel_size)\<close> does not hold them.
\<close>

theorem filters_view_raises:
  assumes "1 \<le> oc"
  shows "(\<exists>rows. band_pass (new_layer oc ks sr st pd dl ml mb) = Inr rows
            \<and> length rows = oc div 2
            \<and> length (concat rows) = (oc div 2) * odd_kernel_size ks)
         \<and> fst (filters (new_layer oc ks sr st pd dl ml mb)) = Inl RuntimeError"
  using band_pass_new_layer_shape filters_new_layer_raises [OF assms] by simp

theorem filters_view_raises_witness:
  "(1::nat) \<le> 80 \<and> fst (filters (new_layer 80 251 16000 10 0 1 50 50)) = Inl RuntimeError"
  using filters_view_raises [of 80 251 16000 10 0 1 50 50] by simp

section \<open>The effective cutoffs\<close>



lemma clamp_mono: "x \<le> y \<Longrightarrow> clamp x lo hi \<le> clamp y lo hi"
  by (auto simp: clamp_def min_def max_def)







text \<open>
  C9. With the raw parameters and every other setting fixed, the bandwidth
  \<open>band = high - low\<close> of a filter does not decrease when \<open>min_band_hz\<close> grows: stated
  for a layer whose \<open>min_band_hz\<close> is replaced, and for two layers constructed with the
  two values and given the same parameters.
\<close>

theorem band_mono_min_band_hz:
  assumes "mb1 \<le> mb2"
  shows "band (s\<lparr>self_min_band_hz := mb1\<rparr>) lp bp \<le> band (s\<lparr>self_min_band_hz := mb2\<rparr>) lp bp
         \<and> band (set_params lps bps (new_layer oc ks sr st pd dl ml mb1)) lp bp
           \<le> band (set_params lps bps (new_layer oc ks sr st pd dl ml mb2)) lp bp"
proof -
  have mono: "clamp (x + mb1 + b) lo hi - x \<le> clamp (x + mb2 + b) lo hi - x" for x b lo hi :: real
    using clamp_mono [of "x + mb1 + b" "x + mb2 + b" lo hi] assms by simp
  show ?thesis
    by (simp add: band_def high_def pre_clamp_high_def low_def mono
        set_params_fields new_layer_fields)
qed

theorem band_mono_min_band_hz_witness:
  "(50::real) \<le> 100
   \<and> band (set_params [100] [200] (new_layer 80 251 16000 10 0 1 50 50)) 100 200
     \<le> band (set_params [100] [200] (new_layer 80 251 16000 10 0 1 50 100)) 100 200"
  using band_mono_min_band_hz [where ?mb1.0 = 50 and ?mb2.0 = 100 and lps = "[100]"
      and bps = "[200]" and oc = 80 and ks = 251 and sr = 16000 and st = 10 and pd = 0
      and dl = 1 and ml = 50 and lp = 100 and bp = 200]
  by simp



section \<open>The synthesized kernels\<close>






lemma self_n_new_layer:
  "self_n (new_layer oc ks sr st pd dl ml mb)
     = map (\<lambda>t. 2 * pi * t) (spec_time_axis (odd_kernel_size ks) sr)"
  by (simp add: new_layer_def Let_def arange_neg_def spec_time_axis_def)

lemma self_window_new_layer:
  "self_window (new_layer oc ks sr st pd dl ml mb) = spec_window (odd_kernel_size ks)"
  by (simp add: new_layer_def Let_def spec_window_def)



lemma band_pass_left_entry:
  "(sin (hi * (2 * pi * t)) - sin (lo * (2 * pi * t))) / (2 * pi * t / 2) * w
     = spec_band_pass_left hi lo t w"
  by (simp add: spec_band_pass_left_def mult.commute mult.left_commute)

lemma band_pass_left_new_layer:
  "band_pass_left (new_layer oc ks sr st pd dl ml mb) lp bp
     = map (\<lambda>(t, w). spec_band_pass_left (high (new_layer oc ks sr st pd dl ml mb) lp bp)
                        (low (new_layer oc ks sr st pd dl ml mb) lp) t w)
         (zip (spec_time_axis (odd_kernel_size ks) sr) (spec_window (odd_kernel_size ks)))"
  unfolding band_pass_left_def self_n_new_layer self_window_new_layer zip_map1 map_map
  by (simp only: o_def split_def fst_conv snd_conv band_pass_left_entry)

text \<open>
  C6. For every filter and every parameter value (and a sample rate other than zero):
  the buffer \<open>_n\<close> is \<open>2 * pi * t\<close> over the time axis \<open>t\<close> of the negative sample
  indices, the window is the first half of the Hamming window, and the left half of
  the kernel is \<open>(sin(2 pi high t) - sin(2 pi low t)) / (pi t)\<close> times the window;
  the centre tap before normalisation is \<open>2 * band\<close>; and the row of the filter in
  \<open>band_pass\<close> is the concatenation of left half, centre and reversed left half,
  each entry divided by \<open>2 * band\<close>.
\<close>

theorem band_pass_formula:
  assumes "sr \<noteq> 0" and "length lps = length bps" and "i < length lps"
  shows "self_n (new_layer oc ks sr st pd dl ml mb)
           = map (\<lambda>t. 2 * pi * t) (spec_time_axis (odd_kernel_size ks) sr)
         \<and> self_window (new_layer oc ks sr st pd dl ml mb) = spec_window (odd_kernel_size ks)
         \<and> band_pass_left (new_layer oc ks sr st pd dl ml mb) (lps ! i) (bps ! i)
           = map (\<lambda>(t, w). spec_band_pass_left
                              (high (new_layer oc ks sr st pd dl ml mb) (lps ! i) (bps ! i))
                              (low (new_layer oc ks sr st pd dl ml mb) (lps ! i)) t w)
               (zip (spec_time_axis (odd_kernel_size ks) sr) (spec_window (odd_kernel_size ks)))
         \<and> band_pass_center (new_layer oc ks sr st pd dl ml mb) (lps ! i) (bps ! i)
           = 2 * band (new_layer oc ks sr st pd dl ml mb) (lps ! i) (bps ! i)
         \<and> (\<exists>rows. band_pass (set_params lps bps (new_layer oc ks sr st pd dl ml mb)) = Inr rows
               \<and> rows ! i
                 = map (\<lambda>v. tdiv v (2 * band (new_layer oc ks sr st pd dl ml mb) (lps ! i) (bps ! i)))
                     (band_pass_left (new_layer oc ks sr st pd dl ml mb) (lps ! i) (bps ! i)
                        @ [band_pass_center (new_layer oc ks sr st pd dl ml mb) (lps ! i) (bps ! i)]
                        @ rev (band_pass_left (new_layer oc ks sr st pd dl ml mb) (lps ! i) (bps ! i))))"
proof -
  let ?L = "new_layer oc ks sr st pd dl ml mb"
  let ?rows = "map (\<lambda>(x, y). band_pass_row ?L x y) (zip lps bps)"
  have bp: "band_pass (set_params lps bps ?L) = Inr ?rows"
    using assms(2) by (rule band_pass_set_params)
  have "?rows ! i = band_pass_row ?L (lps ! i) (bps ! i)"
    using assms by simp
  then have row: "?rows ! i
      = map (\<lambda>v. tdiv v (2 * band ?L (lps ! i) (bps ! i)))
          (band_pass_left ?L (lps ! i) (bps ! i) @ [band_pass_center ?L (lps ! i) (bps ! i)]
             @ rev (band_pass_left ?L (lps ! i) (bps ! i)))"
    by (simp add: band_pass_row_def band_pass_right_def)
  show ?thesis
    using bp row self_n_new_layer self_window_new_layer band_pass_left_new_layer
    by (simp add: band_pass_center_def)
qed

theorem band_pass_formula_witness:
  "(16000::real) \<noteq> 0 \<and> length [3950::real] = length [3950::real] \<and> (0::nat) < length [3950::real]
   \<and> band_pass_left (new_layer 1 3 16000 1 0 1 50 50) ([3950] ! 0) ([3950] ! 0)
     = map (\<lambda>(t, w). spec_band_pass_left
                        (high (new_layer 1 3 16000 1 0 1 50 50) ([3950] ! 0) ([3950] ! 0))
                        (low (new_layer 1 3 16000 1 0 1 50 50) ([3950] ! 0)) t w)
         (zip (spec_time_axis (odd_kernel_size 3) 16000) (spec_window (odd_kernel_size 3)))
   \<and> band_pass_center (new_layer 1 3 16000 1 0 1 50 50) ([3950] ! 0) ([3950] ! 0)
     = 2 * band (new_layer 1 3 16000 1 0 1 50 50) ([3950] ! 0) ([3950] ! 0)"
proof -
  have h1: "(16000::real) \<noteq> 0" by simp
  have h2: "length [3950::real] = length [3950::real]" by simp
  have h3: "(0::nat) < length [3950::real]" by simp
  show ?thesis
    using band_pass_formula [OF h1 h2 h3, of 1 3 1 0 1 50 50] by simp
qed







section \<open>The cache of \<open>filters\<close>\<close>

lemma band_pass_row_cache:
  "band_pass_row (s\<lparr>filters_cache := c\<rparr>) = band_pass_row s"
  by (simp add: fun_eq_iff band_pass_row_def band_pass_left_def band_pass_right_def
      band_pass_center_def band_def high_def pre_clamp_high_def low_def)

lemma filters_body_cache:
  "filters_body (s\<lparr>filters_cache := c\<rparr>) = filters_body s"
  by (simp add: filters_body_def band_pass_def band_pass_row_cache split: sum.splits)

lemma set_params_cache:
  "set_params lps bps (s\<lparr>filters_cache := c\<rparr>) = (set_params lps bps s)\<lparr>filters_cache := c\<rparr>"
  by (simp add: set_params_def)

lemma filters_hit:
  assumes "filters_cache s = Some k"
  shows "filters s = (Inr k, s)"
  using assms by (simp add: filters_def)

lemma filters_miss:
  assumes "filters_cache s = None"
  shows "fst (filters s) = filters_body s"
  using assms by (simp add: filters_def split: sum.splits)

lemma filters_fills_cache:
  assumes "fst (filters s) = Inr k"
  shows "filters_cache (snd (filters s)) = Some k"
  using assms by (auto simp: filters_def split: option.splits sum.splits)

lemma filters_twice:
  "fst (filters (snd (filters s))) = fst (filters s)"
  by (auto simp: filters_def split: option.splits sum.splits)

lemma filters_stale:
  assumes "fst (filters s) = Inr k"
  shows "fst (filters (set_params lps bps (snd (filters s)))) = Inr k"
proof -
  have "filters_cache (set_params lps bps (snd (filters s))) = Some k"
    using filters_fills_cache [OF assms] by (simp add: set_params_fields)
  then show ?thesis by (simp add: filters_hit)
qed

text \<open>
  C3. The claim: \<open>filters\<close> evaluated twice with unchanged parameters gives the same
  kernels, and after any change of the parameters the next evaluation returns the
  kernel bank of the new values. The first half holds. The second does not:
  \<open>lru_cache\<close> keeps the first kernel bank it computed for the object and returns it
  from then on, whatever the parameters become; the body runs on the current parameters
  only while no kernel bank is cached.
\<close>

theorem filters_memoized:
  "fst (filters (snd (filters s))) = fst (filters s)
   \<and> (filters_cache s = None \<longrightarrow> fst (filters s) = filters_body s)
   \<and> (fst (filters s) = Inr k \<longrightarrow>
        filters_cache (snd (filters s)) = Some k
        \<and> fst (filters (set_params lps bps (snd (filters s)))) = Inr k)"
  using filters_twice filters_miss filters_fills_cache filters_stale by blast

lemma sin_at_nyquist: "sin (8000 * (2 * pi * (real 0 - real 1) / 16000)) = 0"
proof -
  have "8000 * (2 * pi * (real 0 - real 1) / 16000) = - pi" by simp
  then show ?thesis by simp
qed

lemma sin_at_half_nyquist: "sin (4000 * (2 * pi * (real 0 - real 1) / 16000)) = - 1"
proof -
  have "4000 * (2 * pi * (real 0 - real 1) / 16000) = - (pi / 2)" by simp
  then show ?thesis by (simp only: sin_minus sin_pi_half)
qed

lemma buffers_kernel_size_3:
  "self_n (new_layer oc 3 16000 st pd dl ml mb) = [2 * pi * (real 0 - real 1) / 16000]"
  "self_window (new_layer oc 3 16000 st pd dl ml mb) = [0.54 - 0.46 * cos 0]"
proof -
  have k: "odd_kernel_size 3 div 2 = Suc 0" by (simp add: odd_kernel_size_def)
  have h: "hamming (odd_kernel_size 3) =
             map (\<lambda>k. 0.54 - 0.46 * cos (2 * pi * real k / real (3 - 1 :: nat))) [0..<3]"
    by (simp add: hamming_def odd_kernel_size_def)
  show "self_n (new_layer oc 3 16000 st pd dl ml mb) = [2 * pi * (real 0 - real 1) / 16000]"
    by (simp add: new_layer_def Let_def k arange_neg_def)
  have "take (Suc 0) (hamming (odd_kernel_size 3)) = [0.54 - 0.46 * cos 0]"
    unfolding h by (simp add: upt_rec)
  then show "self_window (new_layer oc 3 16000 st pd dl ml mb) = [0.54 - 0.46 * cos 0]"
    by (simp add: new_layer_def Let_def k)
qed

lemma row_band_4000_8000:
  "band_pass_row (new_layer oc 3 16000 st pd dl 0 0) 4000 4000
     = [Fin (- (16 / (100 * pi))), Fin 1, Fin (- (16 / (100 * pi)))]"
proof -
  let ?L = "new_layer oc 3 16000 st pd dl 0 0"
  have lo: "low ?L 4000 = 4000" by (simp add: low_def new_layer_fields)
  have hi: "high ?L 4000 4000 = 8000"
    by (simp add: high_def clamp_def pre_clamp_high_def lo new_layer_fields)
  have b: "band ?L 4000 4000 = 4000" by (simp add: band_def lo hi)
  have left: "band_pass_left ?L 4000 4000 = [- (1280 / pi)]"
    by (simp add: band_pass_left_def buffers_kernel_size_3 lo hi sin_at_nyquist
        sin_at_half_nyquist)
  show ?thesis
    by (simp add: band_pass_row_def band_pass_center_def band_pass_right_def left b tdiv_def)
qed

lemma row_band_0_8000:
  "band_pass_row (new_layer oc 3 16000 st pd dl 0 0) 0 8000 = [Fin 0, Fin 1, Fin 0]"
proof -
  let ?L = "new_layer oc 3 16000 st pd dl 0 0"
  have lo: "low ?L 0 = 0" by (simp add: low_def new_layer_fields)
  have hi: "high ?L 0 8000 = 8000"
    by (simp add: high_def clamp_def pre_clamp_high_def lo new_layer_fields)
  have b: "band ?L 0 8000 = 8000" by (simp add: band_def lo hi)
  have left: "band_pass_left ?L 0 8000 = [0]"
    by (simp add: band_pass_left_def buffers_kernel_size_3 lo hi sin_at_nyquist)
  show ?thesis
    by (simp add: band_pass_row_def band_pass_center_def band_pass_right_def left b tdiv_def)
qed

lemma first_evaluation:
  "filters (set_params [4000] [4000] (new_layer 1 3 16000 1 0 1 0 0))
     = (Inr \<lparr> shape = (1, 1, 3),
               entries = [Fin (- (16 / (100 * pi))), Fin 1, Fin (- (16 / (100 * pi)))] \<rparr>,
        (set_params [4000] [4000] (new_layer 1 3 16000 1 0 1 0 0))
          \<lparr> filters_cache :=
              Some \<lparr> shape = (1, 1, 3),
                     entries = [Fin (- (16 / (100 * pi))), Fin 1, Fin (- (16 / (100 * pi)))] \<rparr> \<rparr>)"
proof -
  have "filters_body (set_params [4000] [4000] (new_layer 1 3 16000 1 0 1 0 0))
          = Inr \<lparr> shape = (1, 1, 3),
                  entries = [Fin (- (16 / (100 * pi))), Fin 1, Fin (- (16 / (100 * pi)))] \<rparr>"
    using filters_body_set_params [of "[4000]" 1 "[4000]" 3 16000 1 0 1 0 0]
    by (simp add: row_band_4000_8000 odd_kernel_size_def)
  then show ?thesis
    by (simp add: filters_def set_params_fields new_layer_fields)
qed

lemma fresh_kernel:
  "filters_body (set_params [0] [8000] (new_layer 1 3 16000 1 0 1 0 0))
     = Inr \<lparr> shape = (1, 1, 3), entries = [Fin 0, Fin 1, Fin 0] \<rparr>"
  using filters_body_set_params [of "[0]" 1 "[8000]" 3 16000 1 0 1 0 0]
  by (simp add: row_band_0_8000 odd_kernel_size_def)

theorem filters_memoized_witness:
  "\<exists>k. filters_cache (set_params [4000] [4000] (new_layer 1 3 16000 1 0 1 0 0)) = None
      \<and> fst (filters (set_params [4000] [4000] (new_layer 1 3 16000 1 0 1 0 0))) = Inr k
      \<and> filters_body (set_params [4000] [4000] (new_layer 1 3 16000 1 0 1 0 0)) = Inr k
      \<and> fst (filters (set_params [0] [8000]
               (snd (filters (set_params [4000] [4000] (new_layer 1 3 16000 1 0 1 0 0))))))
          = Inr k"
proof -
  let ?s = "set_params [4000] [4000] (new_layer 1 3 16000 1 0 1 0 0)"
  let ?k = "\<lparr> shape = (1, 1, 3),
              entries = [Fin (- (16 / (100 * pi))), Fin 1, Fin (- (16 / (100 * pi)))] \<rparr>"
  have none: "filters_cache ?s = None" by (simp add: set_params_fields new_layer_fields)
  have k: "fst (filters ?s) = Inr ?k" by (simp only: first_evaluation fst_conv)
  from filters_memoized [of ?s ?k "[0]" "[8000]"] none k
  show ?thesis by auto
qed

theorem stale_kernel_counterexample:
  "fst (filters (set_params [0] [8000]
          (snd (filters (set_params [4000] [4000] (new_layer 1 3 16000 1 0 1 0 0))))))
     \<noteq> filters_body (set_params [0] [8000]
          (snd (filters (set_params [4000] [4000] (new_layer 1 3 16000 1 0 1 0 0)))))"
proof -
  let ?s = "set_params [4000] [4000] (new_layer 1 3 16000 1 0 1 0 0)"
  let ?k = "\<lparr> shape = (1, 1, 3),
              entries = [Fin (- (16 / (100 * pi))), Fin 1, Fin (- (16 / (100 * pi)))] \<rparr>"
  have s1: "snd (filters ?s) = ?s\<lparr>filters_cache := Some ?k\<rparr>"
    by (simp only: first_evaluation snd_conv)
  have stale: "fst (filters (set_params [0] [8000] (snd (filters ?s)))) = Inr ?k"
    by (rule filters_stale) (simp only: first_evaluation fst_conv)
  have "filters_body (set_params [0] [8000] (snd (filters ?s)))
          = filters_body (set_params [0] [8000] (new_layer 1 3 16000 1 0 1 0 0))"
    unfolding s1 set_params_cache filters_body_cache by (simp add: set_params_def)
  then have fresh: "filters_body (set_params [0] [8000] (snd (filters ?s)))
          = Inr \<lparr> shape = (1, 1, 3), entries = [Fin 0, Fin 1, Fin 0] \<rparr>"
    using fresh_kernel by simp
  have "- (16 / (100 * pi)) \<noteq> (0::real)" by simp
  then show ?thesis unfolding stale fresh by simp
qed

section \<open>Construction\<close>


text \<open>
  C7. The claim: construction raises a configuration error when the sample rate is not
  16000, when the analytic layer's \<open>in_channels\<close> is not 1, and when
  \<open>min_low_hz + min_band_hz \<ge> sample_rate / 2\<close>. The first two hold:
  \<open>SincNet.__init__\<close> raises \<open>NotImplementedError\<close> for any other sample rate, and
  \<open>SincNetFilterConvLayer.__init__\<close> raises \<open>ValueError\<close> for any other
  \<open>in_channels\<close> (so \<open>SincNet.__init__\<close> does, once the sample rate is 16000). The
  third is checked nowhere: with \<open>in_channels = 1\<close> the layer is constructed whatever
  \<open>min_low_hz\<close> and \<open>min_band_hz\<close> are, and so is the model when the sample rate is
  16000 too.
\<close>

theorem construction_errors:
  "(sample_rate a \<noteq> 16000 \<longrightarrow> SincNet_init a = Inl NotImplementedError)
   \<and> (sample_rate b = 16000 \<and> sinc_filter_in_channels b \<noteq> 1
        \<longrightarrow> SincNet_init b = Inl ValueError)
   \<and> (in_channels \<noteq> 1
        \<longrightarrow> SincNetFilterConvLayer_init oc ks sr st pd dl ml mb in_channels = Inl ValueError)
   \<and> SincNetFilterConvLayer_init oc ks sr st pd dl ml mb 1
       = Inr (new_layer oc ks sr st pd dl ml mb)
   \<and> (sample_rate c = 16000 \<and> sinc_filter_in_channels c = 1
        \<longrightarrow> \<not> isl (SincNet_init c))"
  by (simp add: SincNet_init_def SincNetFilterConvLayer_init_def)

theorem construction_errors_witness:
  "sample_rate (default_args\<lparr>sample_rate := 8000\<rparr>) \<noteq> 16000
   \<and> SincNet_init (default_args\<lparr>sample_rate := 8000\<rparr>) = Inl NotImplementedError
   \<and> sample_rate (default_args\<lparr>sinc_filter_in_channels := 2\<rparr>) = 16000
   \<and> sinc_filter_in_channels (default_args\<lparr>sinc_filter_in_channels := 2\<rparr>) \<noteq> 1
   \<and> SincNet_init (default_args\<lparr>sinc_filter_in_channels := 2\<rparr>) = Inl ValueError
   \<and> (2::nat) \<noteq> 1
   \<and> SincNetFilterConvLayer_init 80 251 16000 10 0 1 50 50 2 = Inl ValueError
   \<and> sample_rate default_args = 16000 \<and> sinc_filter_in_channels default_args = 1
   \<and> \<not> isl (SincNet_init default_args)"
proof -
  have h: "sample_rate (default_args\<lparr>sample_rate := 8000\<rparr>) \<noteq> 16000"
    "sample_rate (default_args\<lparr>sinc_filter_in_channels := 2\<rparr>) = 16000"
    "sinc_filter_in_channels (default_args\<lparr>sinc_filter_in_channels := 2\<rparr>) \<noteq> 1"
    "(2::nat) \<noteq> 1"
    "sample_rate default_args = 16000" "sinc_filter_in_channels default_args = 1"
    by (simp_all add: default_args_def)
  from construction_errors [of "default_args\<lparr>sample_rate := 8000\<rparr>"
      "default_args\<lparr>sinc_filter_in_channels := 2\<rparr>" 2 80 251 16000 10 0 1 50 50 default_args] h
  show ?thesis by blast
qed

theorem inconsistent_floors_accepted_counterexample:
  "sample_rate (default_args\<lparr>min_low_hz := 8000\<rparr>) / 2
     \<le> min_low_hz (default_args\<lparr>min_low_hz := 8000\<rparr>)
         + min_band_hz (default_args\<lparr>min_low_hz := 8000\<rparr>)
   \<and> \<not> isl (SincNet_init (default_args\<lparr>min_low_hz := 8000\<rparr>))"
  by (simp add: SincNet_init_def SincNetFilterConvLayer_init_def default_args_def)

section \<open>The shape of the output\<close>







end
